theory Spec2Isabelle
  imports Main "HOL-Library.Sublist" "HOL-Library.Word"
begin

section \<open>The connection object of psycopg/connection_type.c\<close>

text \<open>
  The file under verification is the Python-facing half of the connection object:
  the methods of \<open>connectionObject\<close> and its initialisation. The struct, the status
  constants and the macros \<open>EXC_IF_CONN_CLOSED\<close> and \<open>EXC_IF_CONN_ASYNC\<close> live in
  \<open>psycopg/connection.h\<close>; the functions \<open>conn_*\<close> and \<open>pq_*\<close> live in
  \<open>connection_int.c\<close> and \<open>pqpath.c\<close>. None of those files is part of the source tree
  at hand, so what they contribute is either a parameter of the model (the record
  \<open>env\<close> below) or a definition marked as modelled from the specification.
\<close>

subsection \<open>Data\<close>

text \<open>
  \<open>self->status\<close> is a C \<open>int\<close> compared against the \<open>CONN_STATUS_*\<close> constants. The
  ten constants that \<open>psyco_conn_poll_async\<close> and \<open>psyco_conn_cursor\<close> name are the
  constructors; \<open>CONN_STATUS_OTHER\<close> stands for every other value, which is what the
  \<open>default:\<close> branch of the switch sees.
\<close>

datatype conn_status =
    CONN_STATUS_SETUP
  | CONN_STATUS_ASYNC
  | CONN_STATUS_SEND_DATESTYLE
  | CONN_STATUS_SENT_DATESTYLE
  | CONN_STATUS_SEND_CLIENT_ENCODING
  | CONN_STATUS_SENT_CLIENT_ENCODING
  | CONN_STATUS_GET_DATESTYLE
  | CONN_STATUS_GET_CLIENT_ENCODING
  | CONN_STATUS_READY
  | CONN_STATUS_BEGIN
  | CONN_STATUS_OTHER int

text \<open>
  \<open>self->async_status\<close>: the source only names \<open>ASYNC_DONE\<close> (its initial value); the
  other phases are the ones the specification lists for the phase of a query in flight.
\<close>

datatype async_phase = ASYNC_DONE | ASYNC_NONE | ASYNC_READ | ASYNC_WRITE

text \<open>
  The fields of \<open>connectionObject\<close> that \<open>connection_setup\<close> initialises, plus \<open>equote\<close>,
  which \<open>psyco_conn_poll_async\<close> assigns. \<open>closed\<close> and \<open>async\<close> are C \<open>long\<close>s (the
  member table exposes them as \<open>T_LONG\<close>); Python objects are opaque object numbers;
  a \<open>NULL\<close> pointer is \<open>None\<close>. A C string is the list of its characters before the
  terminating NUL. The mutex \<open>self->lock\<close> has no field: it is visible through the
  lock and unlock events of the trace.
\<close>

record connectionObject =
  dsn :: string
  notice_list :: "string list"
  notifies :: "string list"
  closed :: int
  async :: int
  status :: conn_status
  critical :: "string option"
  async_cursor :: "nat option"
  async_status :: async_phase
  pgconn :: "nat option"
  mark :: int
  string_types :: "(int \<times> nat) list"
  binary_types :: "(int \<times> nat) list"
  notice_pending :: "string option"
  encoding :: "string option"
  equote :: int

subsection \<open>Results, errors, effects\<close>

text \<open>
  What \<open>poll()\<close> hands back through \<open>PyInt_FromLong\<close>: one of the three
  \<open>PSYCO_POLL_*\<close> constants (complete, wait-readable, wait-writable).
\<close>

datatype poll_directive = PSYCO_POLL_OK | PSYCO_POLL_READ | PSYCO_POLL_WRITE

text \<open>
  The values of libpq's \<open>PostgresPollingStatusType\<close>, the return type of
  \<open>PQconnectPoll\<close>. \<open>PGRES_POLLING_ACTIVE\<close> is the fifth value of the enum, the one the
  function's defensive test is there for.
\<close>

datatype PostgresPollingStatusType =
    PGRES_POLLING_FAILED
  | PGRES_POLLING_READING
  | PGRES_POLLING_WRITING
  | PGRES_POLLING_OK
  | PGRES_POLLING_ACTIVE

text \<open>The answers of the query-status primitive the readiness check consults.\<close>

datatype query_status = NeedRead | NeedWrite | Done

text \<open>
  Every call that leaves the file, and every lock operation, is an event; a method
  returns the events it caused in order. An argument an event carries is the argument
  of the call.
\<close>

datatype event =
    Py_BEGIN_ALLOW_THREADS
  | Py_BLOCK_THREADS
  | Py_END_ALLOW_THREADS
  | pthread_mutex_init
  | pthread_mutex_lock
  | pthread_mutex_unlock
  | PQconnectPoll
  | PQerrorMessage
  | conn_get_standard_conforming_strings
  | submit_query string
  | flush_query
  | fetch_query_status
  | collect_notifies
  | conn_commit
  | conn_rollback
  | conn_switch_isolation_level int
  | conn_set_client_encoding string
  | pq_reset
  | conn_setup
  | conn_connect string int
  | conn_poll_green_call
  | PyObject_CallFunction "nat option" "string option"
  | PyObject_CallFunction_lobject "nat option" int int int "string option"

text \<open>
  A Python exception is the value a failing method returns in place of \<open>NULL\<close>.
  \<open>PyErr_SetString\<close> and \<open>PyErr_Format\<close> carry the exception class and the message of
  the call in the source; \<open>Raised_by e\<close> is the exception that the callee \<open>e\<close> left set
  when it reported failure; \<open>PyArg_error\<close> is the one \<open>PyArg_ParseTuple\<close> sets.

  Modelled from the spec: the macros \<open>EXC_IF_CONN_CLOSED\<close> and \<open>EXC_IF_CONN_ASYNC\<close> are
  defined in psycopg/connection.h, which is missing, so the exceptions they raise are
  the error kinds the specification names for them: \<open>ConnectionClosed\<close> ("any operation
  attempted after closed == true") and \<open>AsyncModeConflict\<close> ("a synchronous-only
  operation invoked on an asynchronous-mode connection"), the latter with the name of
  the command that the macro is given.
\<close>

datatype exc_class =
  InterfaceError | OperationalError | ProgrammingError | PyExc_ValueError | PyExc_TypeError

datatype error =
    ConnectionClosed
  | AsyncModeConflict string
  | PyErr_SetString exc_class string
  | PyErr_Format exc_class string PostgresPollingStatusType
  | PyArg_error
  | Raised_by event

type_synonym 'a outcome = "event list \<times> (error + 'a) \<times> connectionObject"

text \<open>
  An object a factory returns: its number, and what \<open>PyObject_IsInstance\<close> answers for
  the two base types the file checks against.
\<close>

record pyobject =
  ob_number :: nat
  is_cursorType :: bool
  is_lobjectType :: bool

text \<open>
  The environment of one method call: what libpq answers, and what the functions of the
  missing files do. \<open>external env e self\<close> is the return code and the connection that
  the call \<open>e\<close> of a function of connection_int.c or pqpath.c leaves behind;
  \<open>call_factory\<close> is the result of calling the cursor or large-object factory.
  Every theorem below quantifies over the environment.
\<close>

record env =
  PQconnectPoll_result :: PostgresPollingStatusType
  PQerrorMessage_text :: string
  standard_conforming_strings :: int
  query_failed :: bool
  query_flushed :: bool
  query_status_result :: query_status
  parameter_value :: string
  incoming_notifies :: "string list"
  external :: "event \<Rightarrow> connectionObject \<Rightarrow> int \<times> connectionObject"
  poll_green_unestablished :: "connectionObject \<Rightarrow> poll_directive outcome"
  call_factory :: "event \<Rightarrow> connectionObject \<Rightarrow> error + pyobject"

subsection \<open>The guards every method starts with\<close>

text \<open>
  Modelled from the spec: \<open>EXC_IF_CONN_CLOSED(self)\<close> (psycopg/connection.h, missing)
  makes the method fail with \<open>ConnectionClosed\<close> when \<open>closed\<close> is true; \<open>closed\<close> is a
  \<open>long\<close> that \<open>connection_setup\<close> sets to 0 and \<open>connection_dealloc\<close> tests with
  \<open>closed == 0\<close>, so true is "not 0". \<open>None\<close> means the macro falls through.
\<close>

definition EXC_IF_CONN_CLOSED :: "connectionObject \<Rightarrow> error option" where
  "EXC_IF_CONN_CLOSED self = (if closed self \<noteq> 0 then Some ConnectionClosed else None)"

text \<open>
  Modelled from the spec: \<open>EXC_IF_CONN_ASYNC(self, cmd)\<close> (psycopg/connection.h, missing)
  makes the method fail with \<open>AsyncModeConflict\<close> on an asynchronous-mode connection.
  \<open>async\<close> is a \<open>long\<close> that \<open>connection_init\<close> stores as the caller gave it; a connection
  is in asynchronous mode when it is not 0, which is how \<open>psyco_conn_poll\<close> (line 530,
  \<open>if (self->async)\<close>) and \<open>psyco_conn_isexecuting\<close> (line 566, \<open>async == 0\<close> is
  synchronous) read it.
\<close>

definition EXC_IF_CONN_ASYNC :: "connectionObject \<Rightarrow> string \<Rightarrow> error option" where
  "EXC_IF_CONN_ASYNC self cmd = (if async self \<noteq> 0 then Some (AsyncModeConflict cmd) else None)"

subsection \<open>poll\<close>

text \<open>
  Modelled from the spec: \<open>conn_poll_connect_send\<close> (connection_int.c, missing) is the
  step of the parameter negotiation that \<open>psyco_conn_poll_async\<close> runs in the two
  "sending" and the two "sent" states. Specification 4.1: "(1) from sendingParam[k],
  wait for writability, then issue the parameter-discovery query and move to
  sentParam[k]; (2) from sentParam[k] / fetchingParam[k], wait for readability until the
  query's result is fully available", with the states in the order sending, sent,
  fetching. So the step taken in a sending state issues the query and moves to the sent
  state; the step taken in a sent state moves on to the fetching state and asks the
  caller to wait for readability. The comment of the source on these four states
  (lines 436-437) has them wait for the socket to become writable "to send the rest of
  our query": while the transport has not taken the whole query (\<open>query_flushed\<close> is
  false) the step asks for writability and a sent state is not left; once it has, the
  step asks for readability, as the specification says. When the transport reports a
  failure, the step fails with the transport's text (specification 4.1, "Failure").
  \<open>psyco_conn_poll_async\<close> calls the function in these four states only; in any other
  it fails.
\<close>

definition conn_poll_connect_send :: "env \<Rightarrow> connectionObject \<Rightarrow> poll_directive outcome" where
  "conn_poll_connect_send env self =
     (let wait = (if query_flushed env then PSYCO_POLL_READ else PSYCO_POLL_WRITE);
          failure = Inl (PyErr_SetString OperationalError (PQerrorMessage_text env))
      in
      case status self of
        CONN_STATUS_SEND_DATESTYLE \<Rightarrow>
          (if query_failed env then ([submit_query ''datestyle'', PQerrorMessage], failure, self)
           else ([submit_query ''datestyle''], Inr wait,
                 self\<lparr>status := CONN_STATUS_SENT_DATESTYLE\<rparr>))
      | CONN_STATUS_SEND_CLIENT_ENCODING \<Rightarrow>
          (if query_failed env
           then ([submit_query ''client_encoding'', PQerrorMessage], failure, self)
           else ([submit_query ''client_encoding''], Inr wait,
                 self\<lparr>status := CONN_STATUS_SENT_CLIENT_ENCODING\<rparr>))
      | CONN_STATUS_SENT_DATESTYLE \<Rightarrow>
          (if query_failed env then ([flush_query, PQerrorMessage], failure, self)
           else if query_flushed env
           then ([flush_query], Inr PSYCO_POLL_READ,
                 self\<lparr>status := CONN_STATUS_GET_DATESTYLE\<rparr>)
           else ([flush_query], Inr PSYCO_POLL_WRITE, self))
      | CONN_STATUS_SENT_CLIENT_ENCODING \<Rightarrow>
          (if query_failed env then ([flush_query, PQerrorMessage], failure, self)
           else if query_flushed env
           then ([flush_query], Inr PSYCO_POLL_READ,
                 self\<lparr>status := CONN_STATUS_GET_CLIENT_ENCODING\<rparr>)
           else ([flush_query], Inr PSYCO_POLL_WRITE, self))
      | _ \<Rightarrow> ([], Inl (PyErr_SetString OperationalError ''unexpected state''), self))"

text \<open>
  Modelled from the spec: \<open>conn_poll_connect_fetch\<close> (connection_int.c, missing) is the
  step run in the two "fetching" states. Specification 4.1: "wait for readability until
  the query's result is fully available; (3) on result, parse and store the value,
  advance to the next parameter or to ready if k was last", date style before client
  encoding; the poll that reaches ready returns complete. The record has a field for
  the encoding only, so the date style is read and not kept. When the transport reports
  a failure, the step fails with the transport's text. \<open>psyco_conn_poll_async\<close> calls
  the function in these two states only; in any other it fails.
\<close>

definition conn_poll_connect_fetch :: "env \<Rightarrow> connectionObject \<Rightarrow> poll_directive outcome" where
  "conn_poll_connect_fetch env self =
     (let failure = Inl (PyErr_SetString OperationalError (PQerrorMessage_text env)) in
      case status self of
        CONN_STATUS_GET_DATESTYLE \<Rightarrow>
          (if query_failed env then ([fetch_query_status, PQerrorMessage], failure, self)
           else if query_status_result env = Done
           then ([fetch_query_status], Inr PSYCO_POLL_WRITE,
                 self\<lparr>status := CONN_STATUS_SEND_CLIENT_ENCODING\<rparr>)
           else ([fetch_query_status], Inr PSYCO_POLL_READ, self))
      | CONN_STATUS_GET_CLIENT_ENCODING \<Rightarrow>
          (if query_failed env then ([fetch_query_status, PQerrorMessage], failure, self)
           else if query_status_result env = Done
           then ([fetch_query_status], Inr PSYCO_POLL_OK,
                 self\<lparr>encoding := Some (parameter_value env), status := CONN_STATUS_READY\<rparr>)
           else ([fetch_query_status], Inr PSYCO_POLL_READ, self))
      | _ \<Rightarrow> ([], Inl (PyErr_SetString OperationalError ''unexpected state''), self))"

text \<open>
  Modelled from the spec: \<open>conn_poll_ready\<close> (connection_int.c, missing) is the readiness
  check of specification 4.3: "1. If pendingQuery == null, returns complete immediately
  - nothing to wait for [...]. 2. If pendingQuery != null, consults the query-execution
  collaborator's non-blocking 'is input/output ready' signal and maps it to
  waitReadable/waitWritable/complete, clearing pendingQuery and queryPhase to none on
  completion. 3. Any notification messages surfaced incidentally during this check are
  appended to pendingNotifications, never dropped, never blocking the caller." The
  comment of the source on the two established states (lines 451-453) agrees: "we
  might be in an asynchronous query, or we just might want to check for NOTIFYs". So
  every run of the check, with or without a pending query, appends the notifications
  that have arrived (\<open>incoming_notifies\<close>) to \<open>notifies\<close>.
\<close>

definition conn_poll_ready :: "env \<Rightarrow> connectionObject \<Rightarrow> poll_directive outcome" where
  "conn_poll_ready env self =
     (let self' = self\<lparr>notifies := notifies self @ incoming_notifies env\<rparr> in
      case async_cursor self of
        None \<Rightarrow> ([collect_notifies], Inr PSYCO_POLL_OK, self')
      | Some q \<Rightarrow>
          (case query_status_result env of
             NeedRead \<Rightarrow> ([fetch_query_status, collect_notifies], Inr PSYCO_POLL_READ, self')
           | NeedWrite \<Rightarrow> ([fetch_query_status, collect_notifies], Inr PSYCO_POLL_WRITE, self')
           | Done \<Rightarrow>
               ([fetch_query_status, collect_notifies], Inr PSYCO_POLL_OK,
                self'\<lparr>async_cursor := None, async_status := ASYNC_NONE\<rparr>)))"

text \<open>
  Modelled from the spec: \<open>conn_poll_green\<close> (connection_int.c, missing) is what \<open>poll()\<close>
  runs on a synchronous connection. Specification 4.1 says of it only that polling an
  established connection (status ready or in transaction) "delegates to the Readiness
  Check", "including for the synchronous-mode case"; what it does in any other status
  is left to the environment.
\<close>

definition conn_poll_green :: "env \<Rightarrow> connectionObject \<Rightarrow> poll_directive outcome" where
  "conn_poll_green env self =
     (if status self = CONN_STATUS_READY \<or> status self = CONN_STATUS_BEGIN
      then conn_poll_ready env self
      else (case poll_green_unestablished env self of
              (evs, r) \<Rightarrow> (conn_poll_green_call # evs, r)))"

text \<open>
  \<open>psyco_conn_poll_async\<close>, lines 464-522: the code after the switch, reached from
  \<open>CONN_STATUS_ASYNC\<close> only. The lock is taken, \<open>PQconnectPoll\<close> is called, and each of
  the five ways out unlocks before it returns.
\<close>

definition poll_connect :: "env \<Rightarrow> connectionObject \<Rightarrow> poll_directive outcome" where
  "poll_connect env self =
     (let poll_status = PQconnectPoll_result env;
          entry = [Py_BEGIN_ALLOW_THREADS, pthread_mutex_lock, PQconnectPoll]
      in
      if poll_status = PGRES_POLLING_READING then
        (entry @ [pthread_mutex_unlock, Py_BLOCK_THREADS], Inr PSYCO_POLL_READ, self)
      else if poll_status = PGRES_POLLING_WRITING then
        (entry @ [pthread_mutex_unlock, Py_BLOCK_THREADS], Inr PSYCO_POLL_WRITE, self)
      else if poll_status = PGRES_POLLING_FAILED then
        (entry @ [pthread_mutex_unlock, Py_BLOCK_THREADS, PQerrorMessage],
         Inl (PyErr_SetString OperationalError (PQerrorMessage_text env)), self)
      else if poll_status \<noteq> PGRES_POLLING_OK then
        (entry @ [pthread_mutex_unlock, Py_BLOCK_THREADS],
         Inl (PyErr_Format OperationalError ''unexpected result from PQconnectPoll: %d''
                poll_status), self)
      else
        (entry @ [conn_get_standard_conforming_strings, pthread_mutex_unlock,
                  Py_END_ALLOW_THREADS],
         Inr PSYCO_POLL_WRITE,
         self\<lparr>equote := standard_conforming_strings env,
              status := CONN_STATUS_SEND_DATESTYLE\<rparr>))"

text \<open>\<open>psyco_conn_poll_async\<close>, lines 417-462: the switch on \<open>self->status\<close>.\<close>

definition psyco_conn_poll_async :: "env \<Rightarrow> connectionObject \<Rightarrow> poll_directive outcome" where
  "psyco_conn_poll_async env self =
     (case status self of
        CONN_STATUS_SETUP \<Rightarrow>
          ([], Inr PSYCO_POLL_WRITE, self\<lparr>status := CONN_STATUS_ASYNC\<rparr>)
      | CONN_STATUS_SEND_DATESTYLE \<Rightarrow> conn_poll_connect_send env self
      | CONN_STATUS_SENT_DATESTYLE \<Rightarrow> conn_poll_connect_send env self
      | CONN_STATUS_SEND_CLIENT_ENCODING \<Rightarrow> conn_poll_connect_send env self
      | CONN_STATUS_SENT_CLIENT_ENCODING \<Rightarrow> conn_poll_connect_send env self
      | CONN_STATUS_GET_DATESTYLE \<Rightarrow> conn_poll_connect_fetch env self
      | CONN_STATUS_GET_CLIENT_ENCODING \<Rightarrow> conn_poll_connect_fetch env self
      | CONN_STATUS_ASYNC \<Rightarrow> poll_connect env self
      | CONN_STATUS_READY \<Rightarrow> conn_poll_ready env self
      | CONN_STATUS_BEGIN \<Rightarrow> conn_poll_ready env self
      | CONN_STATUS_OTHER _ \<Rightarrow>
          ([], Inl (PyErr_SetString OperationalError
                      ''not in asynchronous connection attempt''), self))"

text \<open>\<open>psyco_conn_poll\<close>, lines 525-535.\<close>

definition psyco_conn_poll :: "env \<Rightarrow> connectionObject \<Rightarrow> poll_directive outcome" where
  "psyco_conn_poll env self =
     (case EXC_IF_CONN_CLOSED self of
        Some e \<Rightarrow> ([], Inl e, self)
      | None \<Rightarrow>
          if async self \<noteq> 0 then psyco_conn_poll_async env self
          else conn_poll_green env self)"

subsection \<open>isexecuting\<close>

text \<open>\<open>psyco_conn_isexecuting\<close>, lines 562-586: three tests in a row, no side effect.\<close>

definition psyco_conn_isexecuting :: "connectionObject \<Rightarrow> bool" where
  "psyco_conn_isexecuting self =
     (if async self = 0 then False
      else if status self \<noteq> CONN_STATUS_READY then True
      else if async_cursor self \<noteq> None then True
      else False)"

subsection \<open>The DBAPI methods\<close>

text \<open>
  A method's arguments arrive parsed: \<open>None\<close> stands for a tuple that
  \<open>PyArg_ParseTuple\<close> refused (wrong number or type of arguments, or an integer that
  does not fit the C type), \<open>Some\<close> for the C values it stored.
\<close>

text \<open>\<open>psyco_conn_cursor\<close>, lines 55-106. The factory \<open>None\<close> is \<open>cursorType\<close>.\<close>

definition psyco_conn_cursor ::
  "env \<Rightarrow> connectionObject \<Rightarrow> (string option \<times> nat option) option \<Rightarrow> pyobject outcome" where
  "psyco_conn_cursor env self args =
     (case args of
        None \<Rightarrow> ([], Inl PyArg_error, self)
      | Some (name, factory) \<Rightarrow>
          (case EXC_IF_CONN_CLOSED self of
             Some e \<Rightarrow> ([], Inl e, self)
           | None \<Rightarrow>
               if status self \<noteq> CONN_STATUS_READY \<and> status self \<noteq> CONN_STATUS_BEGIN then
                 ([], Inl (PyErr_SetString OperationalError
                             ''asynchronous connection attempt underway''), self)
               else if name \<noteq> None \<and> async self = 1 then
                 ([], Inl (PyErr_SetString ProgrammingError
                             ''asynchronous connections cannot produce named cursors''), self)
               else
                 (case call_factory env (PyObject_CallFunction factory name) self of
                    Inl e \<Rightarrow> ([PyObject_CallFunction factory name], Inl e, self)
                  | Inr obj \<Rightarrow>
                      if \<not> is_cursorType obj then
                        ([PyObject_CallFunction factory name],
                         Inl (PyErr_SetString PyExc_TypeError
                           ''cursor factory must be subclass of psycopg2._psycopg.cursor''),
                         self)
                      else ([PyObject_CallFunction factory name], Inr obj, self))))"

text \<open>\<open>psyco_conn_commit\<close>, lines 133-146.\<close>

definition psyco_conn_commit :: "env \<Rightarrow> connectionObject \<Rightarrow> unit option \<Rightarrow> unit outcome" where
  "psyco_conn_commit env self args =
     (case EXC_IF_CONN_CLOSED self of
        Some e \<Rightarrow> ([], Inl e, self)
      | None \<Rightarrow>
     (case EXC_IF_CONN_ASYNC self ''commit'' of
        Some e \<Rightarrow> ([], Inl e, self)
      | None \<Rightarrow>
     (case args of
        None \<Rightarrow> ([], Inl PyArg_error, self)
      | Some u \<Rightarrow>
          (case external env conn_commit self of
             (rc, self') \<Rightarrow>
               if rc < 0 then ([conn_commit], Inl (Raised_by conn_commit), self')
               else ([conn_commit], Inr (), self')))))"

text \<open>\<open>psyco_conn_rollback\<close>, lines 154-167.\<close>

definition psyco_conn_rollback :: "env \<Rightarrow> connectionObject \<Rightarrow> unit option \<Rightarrow> unit outcome" where
  "psyco_conn_rollback env self args =
     (case EXC_IF_CONN_CLOSED self of
        Some e \<Rightarrow> ([], Inl e, self)
      | None \<Rightarrow>
     (case EXC_IF_CONN_ASYNC self ''rollback'' of
        Some e \<Rightarrow> ([], Inl e, self)
      | None \<Rightarrow>
     (case args of
        None \<Rightarrow> ([], Inl PyArg_error, self)
      | Some u \<Rightarrow>
          (case external env conn_rollback self of
             (rc, self') \<Rightarrow>
               if rc < 0 then ([conn_rollback], Inl (Raised_by conn_rollback), self')
               else ([conn_rollback], Inr (), self')))))"

text \<open>
  \<open>psyco_conn_set_isolation_level\<close>, lines 177-202. \<open>level\<close> is a C \<open>int\<close>, filled by the
  format \<open>"i"\<close>: a 32-bit word, read as a signed number by \<open>sint\<close>.
\<close>

definition psyco_conn_set_isolation_level ::
  "env \<Rightarrow> connectionObject \<Rightarrow> 32 word option \<Rightarrow> unit outcome" where
  "psyco_conn_set_isolation_level env self args =
     (case EXC_IF_CONN_CLOSED self of
        Some e \<Rightarrow> ([], Inl e, self)
      | None \<Rightarrow>
     (case EXC_IF_CONN_ASYNC self ''set_isolation_level'' of
        Some e \<Rightarrow> ([], Inl e, self)
      | None \<Rightarrow>
     (case args of
        None \<Rightarrow> ([], Inl PyArg_error, self)
      | Some level \<Rightarrow>
          if sint level < 0 \<or> sint level > 2 then
            ([], Inl (PyErr_SetString PyExc_ValueError
                        ''isolation level out of bounds (0,3)''), self)
          else
            (case external env (conn_switch_isolation_level (sint level)) self of
               (rc, self') \<Rightarrow>
                 if rc < 0 then
                   ([conn_switch_isolation_level (sint level), PQerrorMessage],
                    Inl (PyErr_SetString OperationalError (PQerrorMessage_text env)), self')
                 else ([conn_switch_isolation_level (sint level)], Inr (), self')))))"

text \<open>
  \<open>toupper\<close> of the C library in the C locale, which is the locale an embedding
  interpreter runs in unless the program changes it: each of the 26 lower-case letters
  goes to its capital, every other character stays.
\<close>

definition toupper :: "char \<Rightarrow> char" where
  "toupper c =
     (case map_of (zip ''abcdefghijklmnopqrstuvwxyz'' ''ABCDEFGHIJKLMNOPQRSTUVWXYZ'') c of
        Some u \<Rightarrow> u
      | None \<Rightarrow> c)"

text \<open>
  The loop of lines 223-228 of \<open>psyco_conn_set_client_encoding\<close>: \<open>i\<close> runs over
  \<open>enc\<close>; \<open>buffer\<close> is what has been written so far, so \<open>j\<close> is its length.
\<close>

function clean_encoding_loop :: "string \<Rightarrow> nat \<Rightarrow> string \<Rightarrow> string" where
  "clean_encoding_loop enc i buffer =
     (if i < length enc then
        (if enc ! i = CHR ''_'' \<or> enc ! i = CHR ''-''
         then clean_encoding_loop enc (Suc i) buffer
         else clean_encoding_loop enc (Suc i) (buffer @ [toupper (enc ! i)]))
      else buffer)"
  by pat_completeness auto
termination
  by (relation "measure (\<lambda>(enc, i, buffer). length enc - i)") auto

declare clean_encoding_loop.simps [simp del]

text \<open>\<open>psyco_conn_set_client_encoding\<close>, lines 209-240.\<close>

definition psyco_conn_set_client_encoding ::
  "env \<Rightarrow> connectionObject \<Rightarrow> string option \<Rightarrow> unit outcome" where
  "psyco_conn_set_client_encoding env self args =
     (case EXC_IF_CONN_CLOSED self of
        Some e \<Rightarrow> ([], Inl e, self)
      | None \<Rightarrow>
     (case EXC_IF_CONN_ASYNC self ''set_client_encoding'' of
        Some e \<Rightarrow> ([], Inl e, self)
      | None \<Rightarrow>
     (case args of
        None \<Rightarrow> ([], Inl PyArg_error, self)
      | Some enc \<Rightarrow>
          (let buffer = clean_encoding_loop enc 0 [] in
           case external env (conn_set_client_encoding buffer) self of
             (rc, self') \<Rightarrow>
               if rc = 0 then ([conn_set_client_encoding buffer], Inr (), self')
               else ([conn_set_client_encoding buffer],
                     Inl (Raised_by (conn_set_client_encoding buffer)), self')))))"

text \<open>
  The normal form of an encoding name in the words of the specification: every \<open>-\<close> and
  \<open>_\<close> deleted, every remaining character in upper case.
\<close>

definition normalized_encoding :: "string \<Rightarrow> string" where
  "normalized_encoding enc =
     map toupper (filter (\<lambda>c. c \<noteq> CHR ''-'' \<and> c \<noteq> CHR ''_'') enc)"

text \<open>
  Two names that differ only in case or in \<open>-\<close> and \<open>_\<close> characters: either side may have
  a \<open>-\<close> or \<open>_\<close> the other lacks, and characters that face each other agree up to case.
\<close>

inductive same_encoding_name :: "string \<Rightarrow> string \<Rightarrow> bool" where
  same_empty: "same_encoding_name [] []"
| skip_left: "c = CHR ''-'' \<or> c = CHR ''_'' \<Longrightarrow> same_encoding_name a b
    \<Longrightarrow> same_encoding_name (c # a) b"
| skip_right: "c = CHR ''-'' \<or> c = CHR ''_'' \<Longrightarrow> same_encoding_name a b
    \<Longrightarrow> same_encoding_name a (c # b)"
| same_letter: "toupper c = toupper d \<Longrightarrow> same_encoding_name a b
    \<Longrightarrow> same_encoding_name (c # a) (d # b)"

text \<open>The mode bits of libpq's large-object interface (libpq/libpq-fs.h).\<close>

definition INV_WRITE :: int where "INV_WRITE = 131072"

definition INV_READ :: int where "INV_READ = 262144"

text \<open>
  \<open>psyco_conn_lobject\<close>, lines 298-363; here the arguments are parsed before the guards.
  The arguments are \<open>oid\<close>, \<open>smode\<close>, \<open>new_oid\<close>, \<open>new_file\<close> and the factory, \<open>None\<close> being
  \<open>lobjectType\<close>. \<open>smode[0]\<close> of the empty string is the terminating NUL.
\<close>

definition lobject_mode :: "string option \<Rightarrow> error + int" where
  "lobject_mode smode =
     (case smode of
        None \<Rightarrow> Inr 0
      | Some m \<Rightarrow>
          if take 2 m = ''rw'' then Inr (INV_READ + INV_WRITE)
          else if take 1 m = ''r'' then Inr INV_READ
          else if take 1 m = ''w'' then Inr INV_WRITE
          else if take 1 m = ''n'' then Inr (- 1)
          else Inl (PyErr_SetString PyExc_TypeError
                      (''mode should be one of 'r', 'w' or 'rw'' @ [CHR 0x27])))"

definition psyco_conn_lobject ::
  "env \<Rightarrow> connectionObject \<Rightarrow>
   (int \<times> string option \<times> int \<times> string option \<times> nat option) option \<Rightarrow> pyobject outcome" where
  "psyco_conn_lobject env self args =
     (case args of
        None \<Rightarrow> ([], Inl PyArg_error, self)
      | Some (oid, smode, new_oid, new_file, factory) \<Rightarrow>
     (case EXC_IF_CONN_CLOSED self of
        Some e \<Rightarrow> ([], Inl e, self)
      | None \<Rightarrow>
     (case EXC_IF_CONN_ASYNC self ''lobject'' of
        Some e \<Rightarrow> ([], Inl e, self)
      | None \<Rightarrow>
     (case lobject_mode smode of
        Inl e \<Rightarrow> ([], Inl e, self)
      | Inr mode \<Rightarrow>
          (let call = PyObject_CallFunction_lobject factory oid mode new_oid new_file in
           case call_factory env call self of
             Inl e \<Rightarrow> ([call], Inl e, self)
           | Inr obj \<Rightarrow>
               if \<not> is_lobjectType obj then
                 ([call],
                  Inl (PyErr_SetString PyExc_TypeError
                    ''lobject factory must be subclass of psycopg2._psycopg.lobject''),
                  self)
               else ([call], Inr obj, self))))))"

text \<open>\<open>psyco_conn_reset\<close>, lines 383-400.\<close>

definition psyco_conn_reset :: "env \<Rightarrow> connectionObject \<Rightarrow> unit outcome" where
  "psyco_conn_reset env self =
     (case EXC_IF_CONN_CLOSED self of
        Some e \<Rightarrow> ([], Inl e, self)
      | None \<Rightarrow>
     (case EXC_IF_CONN_ASYNC self ''reset'' of
        Some e \<Rightarrow> ([], Inl e, self)
      | None \<Rightarrow>
          (case external env pq_reset self of
             (rc, self1) \<Rightarrow>
               if rc < 0 then ([pq_reset], Inl (Raised_by pq_reset), self1)
               else
                 (case external env conn_setup self1 of
                    (res, self2) \<Rightarrow>
                      if res < 0 then ([pq_reset, conn_setup], Inl (Raised_by conn_setup), self2)
                      else ([pq_reset, conn_setup], Inr (), self2)))))"

text \<open>
  The error kind \<open>AsyncModeConflict\<close> of the specification: what \<open>EXC_IF_CONN_ASYNC\<close>
  raises, and the \<open>ProgrammingError\<close> with which \<open>psyco_conn_cursor\<close> refuses a named
  cursor on an asynchronous connection.
\<close>

definition is_AsyncModeConflict :: "error \<Rightarrow> bool" where
  "is_AsyncModeConflict e =
     (case e of
        AsyncModeConflict cmd \<Rightarrow> True
      | PyErr_SetString cls msg \<Rightarrow>
          cls = ProgrammingError
          \<and> msg = ''asynchronous connections cannot produce named cursors''
      | _ \<Rightarrow> False)"

subsection \<open>Repeated polling\<close>

text \<open>
  The caller's loop: one \<open>poll()\<close> per environment, each on the connection the previous
  one left. The run keeps, for every call, what it returned and the connection after it.
\<close>

fun poll_run ::
  "env list \<Rightarrow> connectionObject \<Rightarrow> ((error + poll_directive) \<times> connectionObject) list" where
  "poll_run [] self = []"
| "poll_run (e # es) self =
     (case psyco_conn_poll e self of
        (evs, r, self') \<Rightarrow> (r, self') # poll_run es self')"

text \<open>The status after each call of a run.\<close>

definition statuses ::
  "((error + poll_directive) \<times> connectionObject) list \<Rightarrow> conn_status list" where
  "statuses run = map (\<lambda>(r, c). status c) run"

text \<open>The order of the handshake states that the specification gives.\<close>

definition handshake_sequence :: "conn_status list" where
  "handshake_sequence =
     [CONN_STATUS_SETUP, CONN_STATUS_ASYNC,
      CONN_STATUS_SEND_DATESTYLE, CONN_STATUS_SENT_DATESTYLE, CONN_STATUS_GET_DATESTYLE,
      CONN_STATUS_SEND_CLIENT_ENCODING, CONN_STATUS_SENT_CLIENT_ENCODING,
      CONN_STATUS_GET_CLIENT_ENCODING, CONN_STATUS_READY]"

text \<open>
  A successful asynchronous handshake: an open asynchronous connection in the setup
  state is polled at least once, no call fails, and the run is followed up to the first
  call that leaves the status ready.
\<close>

definition successful_handshake :: "env list \<Rightarrow> connectionObject \<Rightarrow> bool" where
  "successful_handshake envs c0 \<longleftrightarrow>
     closed c0 = 0 \<and> async c0 \<noteq> 0 \<and> status c0 = CONN_STATUS_SETUP \<and> envs \<noteq> [] \<and>
     list_all (\<lambda>(r, c). \<not> isl r) (poll_run envs c0) \<and>
     last (statuses (poll_run envs c0)) = CONN_STATUS_READY \<and>
     list_all (\<lambda>s. s \<noteq> CONN_STATUS_READY) (butlast (statuses (poll_run envs c0)))"

text \<open>
  What each call of a run returned, read against the status it left: a call after which
  the connection is in a sending state returned wait-writable, a call after which it is
  in a fetching state returned wait-readable (whether the call moved into the state or
  stayed in it), and a call returned complete exactly when it is the last of the run.
\<close>

fun directives_ok :: "((error + poll_directive) \<times> connectionObject) list \<Rightarrow> bool" where
  "directives_ok [] = True"
| "directives_ok ((r, c) # rest) =
     ((status c = CONN_STATUS_SEND_DATESTYLE \<or> status c = CONN_STATUS_SEND_CLIENT_ENCODING
         \<longrightarrow> r = Inr PSYCO_POLL_WRITE) \<and>
      (status c = CONN_STATUS_GET_DATESTYLE \<or> status c = CONN_STATUS_GET_CLIENT_ENCODING
         \<longrightarrow> r = Inr PSYCO_POLL_READ) \<and>
      (r = Inr PSYCO_POLL_OK \<longleftrightarrow> rest = []) \<and>
      directives_ok rest)"

text \<open>A table used in the proofs only: the state that follows a handshake state.\<close>

fun next_status :: "conn_status \<Rightarrow> conn_status" where
  "next_status CONN_STATUS_SETUP = CONN_STATUS_ASYNC"
| "next_status CONN_STATUS_ASYNC = CONN_STATUS_SEND_DATESTYLE"
| "next_status CONN_STATUS_SEND_DATESTYLE = CONN_STATUS_SENT_DATESTYLE"
| "next_status CONN_STATUS_SENT_DATESTYLE = CONN_STATUS_GET_DATESTYLE"
| "next_status CONN_STATUS_GET_DATESTYLE = CONN_STATUS_SEND_CLIENT_ENCODING"
| "next_status CONN_STATUS_SEND_CLIENT_ENCODING = CONN_STATUS_SENT_CLIENT_ENCODING"
| "next_status CONN_STATUS_SENT_CLIENT_ENCODING = CONN_STATUS_GET_CLIENT_ENCODING"
| "next_status CONN_STATUS_GET_CLIENT_ENCODING = CONN_STATUS_READY"
| "next_status s = s"

subsection \<open>The mutex around PQconnectPoll\<close>

text \<open>
  Reading a trace with the mutex in mind: \<open>guard held evs\<close> is whether the mutex is
  held after the events \<open>evs\<close>, starting from \<open>held\<close>; it is \<open>None\<close> when the trace locks a
  mutex that is held, unlocks one that is free, or calls \<open>PQconnectPoll\<close> without
  holding it.
\<close>

fun guard :: "bool \<Rightarrow> event list \<Rightarrow> bool option" where
  "guard held [] = Some held"
| "guard held (e # evs) =
     (if e = pthread_mutex_lock then (if held then None else guard True evs)
      else if e = pthread_mutex_unlock then (if held then guard False evs else None)
      else if e = PQconnectPoll then (if held then guard held evs else None)
      else guard held evs)"

subsection \<open>Initialisation\<close>

text \<open>
  \<open>strstr(haystack, needle)\<close>: the index of the first occurrence, \<open>None\<close> for \<open>NULL\<close>.
\<close>

fun strstr :: "string \<Rightarrow> string \<Rightarrow> nat option" where
  "strstr [] needle = (if needle = [] then Some 0 else None)"
| "strstr (c # cs) needle =
     (if prefix needle (c # cs) then Some 0 else map_option Suc (strstr cs needle))"

text \<open>
  The loop of lines 729-730, \<open>for (...; *pos != '\0' && *pos != ' '; pos++) *pos = 'x'\<close>,
  on the index \<open>pos\<close> into the string: index \<open>length s\<close> holds the terminating NUL.
\<close>

function obfuscate_from :: "string \<Rightarrow> nat \<Rightarrow> string" where
  "obfuscate_from s pos =
     (if pos < length s \<and> s ! pos \<noteq> CHR '' ''
      then obfuscate_from (s[pos := CHR ''x'']) (Suc pos)
      else s)"
  by pat_completeness auto
termination
  by (relation "measure (\<lambda>(s, pos). length s - pos)") auto

declare obfuscate_from.simps [simp del]

text \<open>
  Lines 727-731. The loop starts at \<open>pos + 9\<close> whatever follows the match. The buffer
  that \<open>strdup\<close> returned has \<open>length s + 1\<close> bytes, so a start beyond index \<open>length s\<close>
  reads outside it: undefined behaviour, the value \<open>None\<close>.
\<close>

definition obfuscate_password :: "string \<Rightarrow> string option" where
  "obfuscate_password s =
     (case strstr s ''password'' of
        None \<Rightarrow> Some s
      | Some pos \<Rightarrow> if pos + 9 \<le> length s then Some (obfuscate_from s (pos + 9)) else None)"

text \<open>
  \<open>connection_setup\<close>, lines 685-734: the field assignments in the order of the source
  (\<open>PyList_New(0)\<close> and \<open>PyDict_New()\<close> are the empty list and the empty dictionary).
\<close>

definition connection_fields :: "connectionObject \<Rightarrow> string \<Rightarrow> int \<Rightarrow> connectionObject" where
  "connection_fields self dsn0 async0 =
     self\<lparr>dsn := dsn0, notice_list := [], notifies := [], closed := 0, async := async0,
          status := CONN_STATUS_SETUP, critical := None, async_cursor := None,
          async_status := ASYNC_DONE, pgconn := None, mark := 0, string_types := [],
          binary_types := [], notice_pending := None, encoding := None\<rparr>"

text \<open>
  The whole function: initialise, connect (\<open>conn_connect\<close> sees the connection, and with
  it the string as given), then overwrite the password in the stored string whether or
  not the connection attempt succeeded. The result is the event trace, the return value
  \<open>res\<close> and the connection; \<open>None\<close> where the overwriting leaves the buffer.
\<close>

definition connection_setup ::
  "env \<Rightarrow> connectionObject \<Rightarrow> string \<Rightarrow> int \<Rightarrow> (event list \<times> int \<times> connectionObject) option" where
  "connection_setup env self dsn0 async0 =
     (let self1 = connection_fields self dsn0 async0;
          (rc, self2) = external env (conn_connect (dsn self1) async0) self1;
          res = (if rc \<noteq> 0 then - 1 else 0)
      in case obfuscate_password (dsn self2) of
           None \<Rightarrow> None
         | Some d \<Rightarrow>
             Some ([pthread_mutex_init, conn_connect (dsn self1) async0], res,
                   self2\<lparr>dsn := d\<rparr>))"

subsection \<open>Concrete values, for evaluating the model\<close>

text \<open>A connection record before initialisation, and a transport that always succeeds.\<close>

definition blank_connection :: connectionObject where
  "blank_connection =
     \<lparr>dsn = [], notice_list = [], notifies = [], closed = 0, async = 0,
      status = CONN_STATUS_OTHER 0, critical = None, async_cursor = None,
      async_status = ASYNC_DONE, pgconn = None, mark = 0, string_types = [],
      binary_types = [], notice_pending = None, encoding = None, equote = 0\<rparr>"

definition good_env :: env where
  "good_env =
     \<lparr>PQconnectPoll_result = PGRES_POLLING_OK, PQerrorMessage_text = [],
      standard_conforming_strings = 1, query_failed = False, query_flushed = True,
      query_status_result = Done,
      parameter_value = ''UTF8'', incoming_notifies = [],
      external = (\<lambda>e c. (0, c)),
      poll_green_unestablished = (\<lambda>c. ([], Inr PSYCO_POLL_OK, c)),
      call_factory =
        (\<lambda>e c. Inr \<lparr>ob_number = 1, is_cursorType = True, is_lobjectType = True\<rparr>)\<rparr>"

text \<open>
  The transport answers of one handshake: the connection needs a second
  \<open>PQconnectPoll\<close>, the first result is not there at once, and the second query is
  not sent in one piece.
\<close>

definition handshake_envs :: "env list" where
  "handshake_envs =
     [good_env, good_env\<lparr>PQconnectPoll_result := PGRES_POLLING_READING\<rparr>, good_env,
      good_env, good_env, good_env\<lparr>query_status_result := NeedRead\<rparr>, good_env,
      good_env\<lparr>query_flushed := False\<rparr>, good_env\<lparr>query_flushed := False\<rparr>,
      good_env, good_env]"

definition async_connection :: connectionObject where
  "async_connection = connection_fields blank_connection ''dbname=test'' 1"

section \<open>Theorems\<close>

text \<open>
  Claim C4. \<open>isexecuting()\<close> returns true exactly when the connection is in asynchronous
  mode (the test the function makes: \<open>async\<close> is not 0) and either the status is not ready
  or a query is pending (\<open>async_cursor\<close> is not \<open>NULL\<close>). In particular it is false on
  every synchronous connection, true on an asynchronous one whose status is not yet
  ready, false once the status is ready with no pending query, and true again while a
  query is pending.
\<close>

theorem isexecuting_iff:
  "(psyco_conn_isexecuting self \<longleftrightarrow>
      async self \<noteq> 0 \<and> (status self \<noteq> CONN_STATUS_READY \<or> async_cursor self \<noteq> None))
   \<and> (psyco_conn_isexecuting (self\<lparr>async := 0\<rparr>) = False)
   \<and> (psyco_conn_isexecuting (self\<lparr>async := 1, status := CONN_STATUS_SETUP\<rparr>) = True)
   \<and> (psyco_conn_isexecuting
         (self\<lparr>async := 1, status := CONN_STATUS_READY, async_cursor := None\<rparr>) = False)
   \<and> (psyco_conn_isexecuting
         (self\<lparr>async := 1, status := CONN_STATUS_READY, async_cursor := Some c\<rparr>) = True)"
  by (simp add: psyco_conn_isexecuting_def)

theorem isexecuting_iff_witness:
  "psyco_conn_isexecuting async_connection
   \<and> \<not> psyco_conn_isexecuting (async_connection\<lparr>status := CONN_STATUS_READY\<rparr>)
   \<and> psyco_conn_isexecuting
         (async_connection\<lparr>status := CONN_STATUS_READY, async_cursor := Some 7\<rparr>)
   \<and> \<not> psyco_conn_isexecuting (async_connection\<lparr>async := 0\<rparr>)"
  using isexecuting_iff [of async_connection]
    isexecuting_iff [of "async_connection\<lparr>status := CONN_STATUS_READY\<rparr>"]
    isexecuting_iff [of "async_connection\<lparr>status := CONN_STATUS_READY, async_cursor := Some 7\<rparr>"]
    isexecuting_iff [of "async_connection\<lparr>async := 0\<rparr>"]
  by (simp add: async_connection_def connection_fields_def blank_connection_def)

subsection \<open>poll on a closed connection\<close>

text \<open>
  Claim C2. On a connection whose \<open>closed\<close> flag is set, \<open>poll()\<close> fails with
  \<open>ConnectionClosed\<close>, whatever the status, the mode and the transport: nothing is called
  and the connection is left as it was.
\<close>

theorem poll_closed_fails:
  "closed self \<noteq> 0 \<Longrightarrow> psyco_conn_poll env self = ([], Inl ConnectionClosed, self)"
  by (simp add: psyco_conn_poll_def EXC_IF_CONN_CLOSED_def)

theorem poll_closed_fails_witness:
  "closed (async_connection\<lparr>closed := 1\<rparr>) \<noteq> 0
   \<and> psyco_conn_poll good_env (async_connection\<lparr>closed := 1\<rparr>) =
       ([], Inl ConnectionClosed, async_connection\<lparr>closed := 1\<rparr>)
   \<and> psyco_conn_poll good_env (async_connection\<lparr>closed := 1, async := 0,
         status := CONN_STATUS_READY\<rparr>) =
       ([], Inl ConnectionClosed, async_connection\<lparr>closed := 1, async := 0,
         status := CONN_STATUS_READY\<rparr>)"
  using poll_closed_fails [of "async_connection\<lparr>closed := 1\<rparr>" good_env]
    poll_closed_fails [of "async_connection\<lparr>closed := 1, async := 0,
         status := CONN_STATUS_READY\<rparr>" good_env]
  by simp

subsection \<open>The first poll\<close>

text \<open>
  Claim C9. In the setup state \<open>psyco_conn_poll_async\<close> sets the status to connecting
  (\<open>CONN_STATUS_ASYNC\<close>) and returns wait-writable; it calls nothing (the trace is empty)
  and the result does not depend on the environment. So \<open>poll()\<close> on an open
  asynchronous connection in the setup state, which is what the first \<open>poll()\<close> after
  construction sees, does exactly that and cannot fail.
\<close>

theorem first_poll_connecting:
  "status self = CONN_STATUS_SETUP \<Longrightarrow>
     psyco_conn_poll_async env self =
       ([], Inr PSYCO_POLL_WRITE, self\<lparr>status := CONN_STATUS_ASYNC\<rparr>)
     \<and> (closed self = 0 \<and> async self \<noteq> 0 \<longrightarrow>
          psyco_conn_poll env self =
            ([], Inr PSYCO_POLL_WRITE, self\<lparr>status := CONN_STATUS_ASYNC\<rparr>))"
  by (simp add: psyco_conn_poll_def EXC_IF_CONN_CLOSED_def psyco_conn_poll_async_def)

theorem first_poll_connecting_witness:
  "status async_connection = CONN_STATUS_SETUP
   \<and> closed async_connection = 0 \<and> async async_connection \<noteq> 0
   \<and> psyco_conn_poll
        (good_env\<lparr>PQconnectPoll_result := PGRES_POLLING_FAILED\<rparr>) async_connection =
       ([], Inr PSYCO_POLL_WRITE, async_connection\<lparr>status := CONN_STATUS_ASYNC\<rparr>)"
proof -
  have h: "status async_connection = CONN_STATUS_SETUP"
    and h': "closed async_connection = 0 \<and> async async_connection \<noteq> 0"
    by (simp_all add: async_connection_def connection_fields_def)
  from first_poll_connecting [OF h, of "good_env\<lparr>PQconnectPoll_result := PGRES_POLLING_FAILED\<rparr>"]
    h h'
  show ?thesis by simp
qed

subsection \<open>The mutex\<close>

text \<open>
  Claim C7. Read against the mutex, the trace of every call of \<open>psyco_conn_poll_async\<close>
  is well bracketed: starting with the mutex free, it is never locked twice, never
  unlocked when free, \<open>PQconnectPoll\<close> is only called while it is held, and it is free
  again when the call returns or fails (\<open>guard False ... = Some False\<close>). The call invokes
  \<open>PQconnectPoll\<close> exactly in the connecting state, and there the trace starts with
  releasing the interpreter lock, locking the mutex and calling \<open>PQconnectPoll\<close>, and
  unlocks afterwards. The environment is arbitrary, so this covers the five exits:
  reading, writing, failed, ok and any other polling status.
\<close>

theorem poll_mutex_released:
  "guard False (fst (psyco_conn_poll_async env self)) = Some False
   \<and> (async self \<noteq> 0 \<longrightarrow> guard False (fst (psyco_conn_poll env self)) = Some False)
   \<and> (PQconnectPoll \<in> set (fst (psyco_conn_poll_async env self))
        \<longleftrightarrow> status self = CONN_STATUS_ASYNC)
   \<and> (status self = CONN_STATUS_ASYNC \<longrightarrow>
        take 3 (fst (psyco_conn_poll_async env self)) =
          [Py_BEGIN_ALLOW_THREADS, pthread_mutex_lock, PQconnectPoll]
        \<and> pthread_mutex_unlock \<in> set (drop 3 (fst (psyco_conn_poll_async env self))))"
  by (cases "status self"; cases "async_cursor self"; cases "query_status_result env")
     (simp_all add: psyco_conn_poll_def EXC_IF_CONN_CLOSED_def psyco_conn_poll_async_def
        conn_poll_connect_send_def conn_poll_connect_fetch_def conn_poll_ready_def
        poll_connect_def Let_def)

theorem poll_mutex_released_witness:
  "status (async_connection\<lparr>status := CONN_STATUS_ASYNC\<rparr>) = CONN_STATUS_ASYNC
   \<and> fst (psyco_conn_poll_async (good_env\<lparr>PQconnectPoll_result := PGRES_POLLING_FAILED\<rparr>)
        (async_connection\<lparr>status := CONN_STATUS_ASYNC\<rparr>)) =
       [Py_BEGIN_ALLOW_THREADS, pthread_mutex_lock, PQconnectPoll, pthread_mutex_unlock,
        Py_BLOCK_THREADS, PQerrorMessage]
   \<and> guard False
        (fst (psyco_conn_poll_async (good_env\<lparr>PQconnectPoll_result := PGRES_POLLING_FAILED\<rparr>)
           (async_connection\<lparr>status := CONN_STATUS_ASYNC\<rparr>))) = Some False
   \<and> guard False
        (fst (psyco_conn_poll_async (good_env\<lparr>PQconnectPoll_result := PGRES_POLLING_ACTIVE\<rparr>)
           (async_connection\<lparr>status := CONN_STATUS_ASYNC\<rparr>))) = Some False"
  using
    poll_mutex_released [of "good_env\<lparr>PQconnectPoll_result := PGRES_POLLING_FAILED\<rparr>"
      "async_connection\<lparr>status := CONN_STATUS_ASYNC\<rparr>"]
    poll_mutex_released [of "good_env\<lparr>PQconnectPoll_result := PGRES_POLLING_ACTIVE\<rparr>"
      "async_connection\<lparr>status := CONN_STATUS_ASYNC\<rparr>"]
  by (simp add: psyco_conn_poll_async_def poll_connect_def Let_def good_env_def)

subsection \<open>The handshake\<close>

text \<open>
  One successful \<open>poll()\<close> on an open asynchronous connection in a handshake state
  other than ready either stays in the state or moves to the next one; it returns
  wait-writable when it leaves the connection in a sending state, wait-readable when it
  leaves it in a fetching state, and complete exactly when it moves into ready.
\<close>

lemma poll_step:
  assumes "closed c = 0" "async c \<noteq> 0" "status c \<in> set handshake_sequence"
    "status c \<noteq> CONN_STATUS_READY" "psyco_conn_poll e c = (evs, Inr d, c')"
  shows "closed c' = 0 \<and> async c' \<noteq> 0
     \<and> (status c' = status c \<or> status c' = next_status (status c))
     \<and> (status c' = CONN_STATUS_SEND_DATESTYLE \<or> status c' = CONN_STATUS_SEND_CLIENT_ENCODING
            \<longrightarrow> d = PSYCO_POLL_WRITE)
     \<and> (status c' = CONN_STATUS_GET_DATESTYLE \<or> status c' = CONN_STATUS_GET_CLIENT_ENCODING
            \<longrightarrow> d = PSYCO_POLL_READ)
     \<and> (d = PSYCO_POLL_OK \<longleftrightarrow> status c' = CONN_STATUS_READY)"
  using assms
  by (cases "status c")
     (auto simp: psyco_conn_poll_def EXC_IF_CONN_CLOSED_def psyco_conn_poll_async_def
        conn_poll_connect_send_def conn_poll_connect_fetch_def poll_connect_def Let_def
        handshake_sequence_def split: if_splits)

lemma suffix_step:
  "s \<in> set handshake_sequence \<Longrightarrow> s \<noteq> CONN_STATUS_READY \<Longrightarrow>
   dropWhile (\<lambda>t. t \<noteq> s) handshake_sequence =
     s # dropWhile (\<lambda>t. t \<noteq> next_status s) handshake_sequence
   \<and> next_status s \<in> set handshake_sequence"
  by (cases s) (simp_all add: handshake_sequence_def)

lemma handshake_from:
  assumes "closed c = 0" "async c \<noteq> 0" "status c \<in> set handshake_sequence"
    "status c \<noteq> CONN_STATUS_READY" "envs \<noteq> []"
    "list_all (\<lambda>(r, c). \<not> isl r) (poll_run envs c)"
    "last (statuses (poll_run envs c)) = CONN_STATUS_READY"
    "list_all (\<lambda>s. s \<noteq> CONN_STATUS_READY) (butlast (statuses (poll_run envs c)))"
  shows "remdups_adj (status c # statuses (poll_run envs c)) =
           dropWhile (\<lambda>t. t \<noteq> status c) handshake_sequence
         \<and> directives_ok (poll_run envs c)"
  using assms
proof (induction envs arbitrary: c)
  case Nil
  then show ?case by simp
next
  case (Cons e es)
  obtain evs r c' where p: "psyco_conn_poll e c = (evs, r, c')"
    by (cases "psyco_conn_poll e c") auto
  with Cons.prems(6) obtain d where r: "r = Inr d"
    by (cases r) auto
  have run: "poll_run (e # es) c = (Inr d, c') # poll_run es c'"
    using p r by simp
  have st: "closed c' = 0 \<and> async c' \<noteq> 0
     \<and> (status c' = status c \<or> status c' = next_status (status c))
     \<and> (status c' = CONN_STATUS_SEND_DATESTYLE \<or> status c' = CONN_STATUS_SEND_CLIENT_ENCODING
            \<longrightarrow> d = PSYCO_POLL_WRITE)
     \<and> (status c' = CONN_STATUS_GET_DATESTYLE \<or> status c' = CONN_STATUS_GET_CLIENT_ENCODING
            \<longrightarrow> d = PSYCO_POLL_READ)
     \<and> (d = PSYCO_POLL_OK \<longleftrightarrow> status c' = CONN_STATUS_READY)"
    using poll_step [OF Cons.prems(1-4)] p r by simp
  have suf: "dropWhile (\<lambda>t. t \<noteq> status c) handshake_sequence =
     status c # dropWhile (\<lambda>t. t \<noteq> next_status (status c)) handshake_sequence"
    and nxt: "next_status (status c) \<in> set handshake_sequence"
    using suffix_step [OF Cons.prems(3,4)] by simp_all
  have c'_in: "status c' \<in> set handshake_sequence"
    using st nxt Cons.prems(3) by auto
  show ?case
  proof (cases "es = []")
    case True
    then have ready: "status c' = CONN_STATUS_READY"
      using Cons.prems(7) run by (simp add: statuses_def)
    with st Cons.prems(4) have adv: "status c' = next_status (status c)"
      and d: "d = PSYCO_POLL_OK"
      by auto
    have "dropWhile (\<lambda>t. t \<noteq> CONN_STATUS_READY) handshake_sequence = [CONN_STATUS_READY]"
      by (simp add: handshake_sequence_def)
    with True run ready adv d suf Cons.prems(4) show ?thesis
      by (simp add: statuses_def)
  next
    case False
    then have run_ne: "poll_run es c' \<noteq> []"
      by (cases es) (auto split: prod.splits)
    then have nr: "status c' \<noteq> CONN_STATUS_READY"
      using Cons.prems(8) run by (simp add: statuses_def)
    have ih: "remdups_adj (status c' # statuses (poll_run es c')) =
           dropWhile (\<lambda>t. t \<noteq> status c') handshake_sequence
         \<and> directives_ok (poll_run es c')"
    proof (rule Cons.IH)
      show "closed c' = 0" "async c' \<noteq> 0" using st by simp_all
      show "status c' \<in> set handshake_sequence" by (rule c'_in)
      show "status c' \<noteq> CONN_STATUS_READY" by (rule nr)
      show "es \<noteq> []" by (rule False)
      show "list_all (\<lambda>(r, c). \<not> isl r) (poll_run es c')"
        using Cons.prems(6) run by simp
      show "last (statuses (poll_run es c')) = CONN_STATUS_READY"
        using Cons.prems(7) run run_ne by (simp add: statuses_def)
      show "list_all (\<lambda>s. s \<noteq> CONN_STATUS_READY) (butlast (statuses (poll_run es c')))"
        using Cons.prems(8) run run_ne by (simp add: statuses_def)
    qed
    have d_ok: "d \<noteq> PSYCO_POLL_OK"
      using st nr by simp
    have seq: "remdups_adj (status c # statuses (poll_run (e # es) c)) =
           dropWhile (\<lambda>t. t \<noteq> status c) handshake_sequence"
    proof (cases "status c' = status c")
      case True
      then show ?thesis using ih run by (simp add: statuses_def)
    next
      case False
      with st have "status c' = next_status (status c)" by auto
      with False ih run suf show ?thesis by (simp add: statuses_def)
    qed
    have dirs: "directives_ok (poll_run (e # es) c)"
      using ih run run_ne d_ok st by auto
    from seq dirs show ?thesis by simp
  qed
qed

text \<open>
  Claim C1. In every successful asynchronous handshake (an open asynchronous connection
  in the setup state, polled without a failure up to the first call that leaves it ready)
  the statuses that the repeated \<open>poll()\<close> calls go through are, once immediate
  repetitions are dropped (a call may leave the status where it is while the transport
  needs more time), exactly setup, connecting, sending date style, sent date style,
  fetching date style, sending encoding, sent encoding, fetching encoding, ready; every
  call that leaves the connection in a sending state returned wait-writable, every call
  that leaves it in a fetching state returned wait-readable, so each sending step is
  preceded by wait-writable and each fetching step by wait-readable; and complete was
  returned exactly once, by the last call, which is the one that reaches ready. The
  steps from setup to sending date style are the code of \<open>psyco_conn_poll_async\<close>; the
  later ones are the parameter negotiation as modelled from the specification.
\<close>

theorem handshake_state_sequence:
  assumes "successful_handshake envs c0"
  shows "remdups_adj (status c0 # statuses (poll_run envs c0)) = handshake_sequence
         \<and> directives_ok (poll_run envs c0)"
proof -
  from assms have c0: "status c0 = CONN_STATUS_SETUP"
    by (simp add: successful_handshake_def)
  have "remdups_adj (status c0 # statuses (poll_run envs c0)) =
           dropWhile (\<lambda>t. t \<noteq> status c0) handshake_sequence
         \<and> directives_ok (poll_run envs c0)"
    using assms by (intro handshake_from) (simp_all add: successful_handshake_def handshake_sequence_def)
  then show ?thesis
    by (simp add: c0 handshake_sequence_def)
qed

theorem handshake_state_sequence_witness:
  "successful_handshake handshake_envs async_connection
   \<and> statuses (poll_run handshake_envs async_connection) =
       [CONN_STATUS_ASYNC, CONN_STATUS_ASYNC, CONN_STATUS_SEND_DATESTYLE,
        CONN_STATUS_SENT_DATESTYLE, CONN_STATUS_GET_DATESTYLE, CONN_STATUS_GET_DATESTYLE,
        CONN_STATUS_SEND_CLIENT_ENCODING, CONN_STATUS_SENT_CLIENT_ENCODING,
        CONN_STATUS_SENT_CLIENT_ENCODING, CONN_STATUS_GET_CLIENT_ENCODING,
        CONN_STATUS_READY]
   \<and> remdups_adj (status async_connection # statuses (poll_run handshake_envs async_connection))
       = handshake_sequence
   \<and> directives_ok (poll_run handshake_envs async_connection)"
proof -
  have run: "statuses (poll_run handshake_envs async_connection) =
       [CONN_STATUS_ASYNC, CONN_STATUS_ASYNC, CONN_STATUS_SEND_DATESTYLE,
        CONN_STATUS_SENT_DATESTYLE, CONN_STATUS_GET_DATESTYLE, CONN_STATUS_GET_DATESTYLE,
        CONN_STATUS_SEND_CLIENT_ENCODING, CONN_STATUS_SENT_CLIENT_ENCODING,
        CONN_STATUS_SENT_CLIENT_ENCODING, CONN_STATUS_GET_CLIENT_ENCODING,
        CONN_STATUS_READY]"
    by (simp add: handshake_envs_def async_connection_def connection_fields_def blank_connection_def
   good_env_def statuses_def psyco_conn_poll_def EXC_IF_CONN_CLOSED_def psyco_conn_poll_async_def
        conn_poll_connect_send_def conn_poll_connect_fetch_def poll_connect_def Let_def)
  have ok: "list_all (\<lambda>(r, c). \<not> isl r) (poll_run handshake_envs async_connection)"
    by (simp add: handshake_envs_def async_connection_def connection_fields_def blank_connection_def
   good_env_def statuses_def psyco_conn_poll_def EXC_IF_CONN_CLOSED_def psyco_conn_poll_async_def
        conn_poll_connect_send_def conn_poll_connect_fetch_def poll_connect_def Let_def)
  have h: "successful_handshake handshake_envs async_connection"
    unfolding successful_handshake_def run
    using ok by (simp add: handshake_envs_def async_connection_def connection_fields_def blank_connection_def)
  from h run handshake_state_sequence [OF h] show ?thesis by simp
qed

subsection \<open>The steady state\<close>

text \<open>
  One \<open>poll()\<close> on an idle established connection: complete, the arrived
  notifications appended, nothing else touched, and the connection idle as before.
\<close>

lemma poll_ready_idle:
  assumes "closed self = 0" "status self = CONN_STATUS_READY" "async_cursor self = None"
  shows "psyco_conn_poll env self =
           ([collect_notifies], Inr PSYCO_POLL_OK,
            self\<lparr>notifies := notifies self @ incoming_notifies env\<rparr>)"
  using assms
  by (simp add: psyco_conn_poll_def EXC_IF_CONN_CLOSED_def psyco_conn_poll_async_def
      conn_poll_green_def conn_poll_ready_def Let_def)

lemma poll_run_idle:
  assumes "closed self = 0" "status self = CONN_STATUS_READY" "async_cursor self = None"
  shows "map fst (poll_run envs self) = map (\<lambda>e. Inr PSYCO_POLL_OK) envs
    \<and> list_all (\<lambda>(r, c). c\<lparr>notifies := notifies self\<rparr> = self) (poll_run envs self)
    \<and> (envs \<noteq> [] \<longrightarrow>
         notifies (snd (last (poll_run envs self))) =
           notifies self @ concat (map incoming_notifies envs))"
  using assms
proof (induction envs arbitrary: self)
  case Nil
  show ?case by simp
next
  case (Cons e es)
  let ?self' = "self\<lparr>notifies := notifies self @ incoming_notifies e\<rparr>"
  have run: "poll_run (e # es) self = (Inr PSYCO_POLL_OK, ?self') # poll_run es ?self'"
    by (simp add: poll_ready_idle [OF Cons.prems])
  have ih: "map fst (poll_run es ?self') = map (\<lambda>e. Inr PSYCO_POLL_OK) es
    \<and> list_all (\<lambda>(r, c). c\<lparr>notifies := notifies ?self'\<rparr> = ?self') (poll_run es ?self')
    \<and> (es \<noteq> [] \<longrightarrow>
         notifies (snd (last (poll_run es ?self'))) =
           notifies ?self' @ concat (map incoming_notifies es))"
    using Cons.prems by (intro Cons.IH) simp_all
  have same: "c\<lparr>notifies := notifies self\<rparr> = self"
    if "c\<lparr>notifies := notifies ?self'\<rparr> = ?self'" for c
  proof -
    have "c\<lparr>notifies := notifies self\<rparr> =
          (c\<lparr>notifies := notifies ?self'\<rparr>)\<lparr>notifies := notifies self\<rparr>"
      by simp
    also have "\<dots> = ?self'\<lparr>notifies := notifies self\<rparr>"
      by (simp only: that)
    finally show ?thesis by simp
  qed
  have all: "list_all (\<lambda>(r, c). c\<lparr>notifies := notifies self\<rparr> = self) (poll_run es ?self')"
    using ih same by (auto simp: list_all_iff)
  have last_es: "es \<noteq> [] \<Longrightarrow> poll_run es ?self' \<noteq> []"
    by (cases es) (auto split: prod.splits)
  show ?case
  proof (cases "es = []")
    case True
    then show ?thesis unfolding run by simp
  next
    case False
    with ih all last_es show ?thesis unfolding run by simp
  qed
qed

text \<open>
  Claim C8. On an open connection whose status is ready and which has no pending query
  (\<open>async_cursor\<close> is \<open>NULL\<close>), in either mode, \<open>poll()\<close> returns complete, and so does every
  one of any number of further calls, whatever the transport would answer. No call
  changes the state of the connection, which the specification (section 2) gives as the
  status, the asynchronous flag, the reference to the query in flight and the negotiated
  parameters: after each call the connection differs from the one before the first call
  in nothing but the queue of notifications, to which the notifications that arrived
  during the calls have been appended in order, none dropped.
\<close>

theorem poll_ready_idempotent:
  assumes "closed self = 0" "status self = CONN_STATUS_READY" "async_cursor self = None"
  shows "snd (psyco_conn_poll env self) =
           (Inr PSYCO_POLL_OK, self\<lparr>notifies := notifies self @ incoming_notifies env\<rparr>)
    \<and> map fst (poll_run envs self) = map (\<lambda>e. Inr PSYCO_POLL_OK) envs
    \<and> list_all (\<lambda>(r, c). c\<lparr>notifies := notifies self\<rparr> = self) (poll_run envs self)
    \<and> (envs \<noteq> [] \<longrightarrow>
         notifies (snd (last (poll_run envs self))) =
           notifies self @ concat (map incoming_notifies envs))"
  using poll_ready_idle [OF assms, of env] poll_run_idle [OF assms, of envs] by simp

theorem poll_ready_idempotent_witness:
  "closed (async_connection\<lparr>status := CONN_STATUS_READY, async := 0\<rparr>) = 0
   \<and> status (async_connection\<lparr>status := CONN_STATUS_READY, async := 0\<rparr>) = CONN_STATUS_READY
   \<and> async_cursor (async_connection\<lparr>status := CONN_STATUS_READY, async := 0\<rparr>) = None
   \<and> map fst (poll_run
        [good_env\<lparr>incoming_notifies := [''a'', ''b'']\<rparr>,
         good_env\<lparr>query_status_result := NeedRead\<rparr>,
         good_env\<lparr>incoming_notifies := [''c'']\<rparr>]
        (async_connection\<lparr>status := CONN_STATUS_READY, async := 0\<rparr>)) =
       [Inr PSYCO_POLL_OK, Inr PSYCO_POLL_OK, Inr PSYCO_POLL_OK]
   \<and> notifies (snd (last (poll_run
        [good_env\<lparr>incoming_notifies := [''a'', ''b'']\<rparr>,
         good_env\<lparr>query_status_result := NeedRead\<rparr>,
         good_env\<lparr>incoming_notifies := [''c'']\<rparr>]
        (async_connection\<lparr>status := CONN_STATUS_READY, async := 0\<rparr>)))) =
       [''a'', ''b'', ''c'']
   \<and> map fst (poll_run [good_env, good_env]
        (async_connection\<lparr>status := CONN_STATUS_READY\<rparr>)) =
       [Inr PSYCO_POLL_OK, Inr PSYCO_POLL_OK]"
proof -
  have h: "closed (async_connection\<lparr>status := CONN_STATUS_READY, async := 0\<rparr>) = 0"
    "status (async_connection\<lparr>status := CONN_STATUS_READY, async := 0\<rparr>) = CONN_STATUS_READY"
    "async_cursor (async_connection\<lparr>status := CONN_STATUS_READY, async := 0\<rparr>) = None"
    and h': "closed (async_connection\<lparr>status := CONN_STATUS_READY\<rparr>) = 0"
    "status (async_connection\<lparr>status := CONN_STATUS_READY\<rparr>) = CONN_STATUS_READY"
    "async_cursor (async_connection\<lparr>status := CONN_STATUS_READY\<rparr>) = None"
    and n: "notifies (async_connection\<lparr>status := CONN_STATUS_READY, async := 0\<rparr>) = []"
    by (simp_all add: async_connection_def connection_fields_def)
  from h n poll_ready_idempotent [OF h, of good_env
      "[good_env\<lparr>incoming_notifies := [''a'', ''b'']\<rparr>,
        good_env\<lparr>query_status_result := NeedRead\<rparr>,
        good_env\<lparr>incoming_notifies := [''c'']\<rparr>]"]
    poll_ready_idempotent [OF h', of good_env "[good_env, good_env]"]
  show ?thesis by (simp del: poll_run.simps add: good_env_def)
qed

subsection \<open>Encoding names\<close>


lemma toupper_dash: "toupper c = CHR ''-'' \<longleftrightarrow> c = CHR ''-''"
  by (simp add: toupper_def)

lemma toupper_underscore: "toupper c = CHR ''_'' \<longleftrightarrow> c = CHR ''_''"
  by (simp add: toupper_def)

lemma clean_encoding_loop_eq:
  "clean_encoding_loop enc i buffer = buffer @ normalized_encoding (drop i enc)"
proof (induction enc i buffer rule: clean_encoding_loop.induct)
  case (1 enc i buffer)
  show ?case
  proof (cases "i < length enc")
    case True
    then have d: "drop i enc = enc ! i # drop (Suc i) enc"
      by (simp add: Cons_nth_drop_Suc)
    show ?thesis
      using True 1 d by (subst clean_encoding_loop.simps) (auto simp: normalized_encoding_def)
  next
    case False
    then show ?thesis
      by (subst clean_encoding_loop.simps) (simp add: normalized_encoding_def)
  qed
qed

lemma normalized_encoding_Cons:
  "normalized_encoding (c # a) =
     (if c = CHR ''-'' \<or> c = CHR ''_'' then normalized_encoding a
      else toupper c # normalized_encoding a)"
  by (simp add: normalized_encoding_def)

lemma same_encoding_name_normalized:
  "same_encoding_name a b \<Longrightarrow> normalized_encoding a = normalized_encoding b"
proof (induction rule: same_encoding_name.induct)
  case same_empty
  show ?case by simp
next
  case (skip_left c a b)
  then show ?case by (auto simp: normalized_encoding_Cons)
next
  case (skip_right c a b)
  then show ?case by (auto simp: normalized_encoding_Cons)
next
  case (same_letter c d a b)
  have "c = CHR ''-'' \<longleftrightarrow> d = CHR ''-''" "c = CHR ''_'' \<longleftrightarrow> d = CHR ''_''"
    using same_letter.hyps(1) toupper_dash [of c] toupper_dash [of d]
      toupper_underscore [of c] toupper_underscore [of d] by auto
  with same_letter show ?case by (simp add: normalized_encoding_Cons)
qed

text \<open>
  Claim C10. \<open>set_client_encoding\<close> passes one thing to \<open>conn_set_client_encoding\<close>: the
  argument with every \<open>-\<close> and \<open>_\<close> deleted and every other character in upper case. The
  call is made once, after the guards, on an open synchronous connection, and not at
  all otherwise; the loop of the source computes exactly the normal form of
  the specification. Two arguments that differ only in case or in \<open>-\<close> and \<open>_\<close>
  characters give the same call, the same result and the same connection.
\<close>

theorem set_client_encoding_normalizes:
  "fst (psyco_conn_set_client_encoding env self (Some enc)) =
     (if closed self = 0 \<and> async self = 0
      then [conn_set_client_encoding (normalized_encoding enc)] else [])
   \<and> (same_encoding_name enc enc' \<longrightarrow>
        psyco_conn_set_client_encoding env self (Some enc) =
        psyco_conn_set_client_encoding env self (Some enc'))"
proof -
  have buf: "clean_encoding_loop e 0 [] = normalized_encoding e" for e
    using clean_encoding_loop_eq [of e 0 "[]"] by simp
  have "fst (psyco_conn_set_client_encoding env self (Some enc)) =
     (if closed self = 0 \<and> async self = 0
      then [conn_set_client_encoding (normalized_encoding enc)] else [])"
    unfolding psyco_conn_set_client_encoding_def EXC_IF_CONN_CLOSED_def EXC_IF_CONN_ASYNC_def buf
    by (simp add: Let_def split: prod.splits)
  moreover have "psyco_conn_set_client_encoding env self (Some enc) =
        psyco_conn_set_client_encoding env self (Some enc')" if "same_encoding_name enc enc'"
    using same_encoding_name_normalized [OF that]
    unfolding psyco_conn_set_client_encoding_def buf
    by (simp add: Let_def split: option.splits)
  ultimately show ?thesis by simp
qed

theorem set_client_encoding_normalizes_witness:
  "same_encoding_name ''utf-8'' ''UTF8''
   \<and> fst (psyco_conn_set_client_encoding good_env (async_connection\<lparr>async := 0\<rparr>) (Some ''utf-8'')) =
       [conn_set_client_encoding ''UTF8'']
   \<and> psyco_conn_set_client_encoding good_env (async_connection\<lparr>async := 0\<rparr>) (Some ''utf-8'') =
     psyco_conn_set_client_encoding good_env (async_connection\<lparr>async := 0\<rparr>) (Some ''UTF8'')"
proof -
  have s: "same_encoding_name ''utf-8'' ''UTF8''"
    by (intro same_letter skip_left same_empty) (simp_all add: toupper_def)
  have n: "normalized_encoding ''utf-8'' = ''UTF8''"
    by (simp add: normalized_encoding_def toupper_def)
  note t = set_client_encoding_normalizes
    [of good_env "async_connection\<lparr>async := 0\<rparr>" "''utf-8''" "''UTF8''"]
  have a: "fst (psyco_conn_set_client_encoding good_env (async_connection\<lparr>async := 0\<rparr>)
             (Some ''utf-8'')) = [conn_set_client_encoding ''UTF8'']"
    using t [THEN conjunct1] n by (simp add: async_connection_def connection_fields_def)
  from s a t [THEN conjunct2] show ?thesis by blast
qed

subsection \<open>Isolation levels\<close>

text \<open>
  Claim C5. Whatever the connection, an isolation level below 0 or above 2 is rejected
  and nothing is called (the trace is empty). On an open synchronous connection, where
  the two guards let the call through, the levels 0, 1 and 2 are exactly the ones
  accepted: for them the method hands the level to \<open>conn_switch_isolation_level\<close> and
  returns what that call decides, \<open>None\<close> when it succeeds; every other level, -1 and 3
  among them, is rejected with the \<open>ValueError\<close> of line 188, nothing called, the
  connection unchanged. The level ranges over the C \<open>int\<close>s; an integer that does not fit
  one is refused by the argument parser, also before anything is called.
\<close>

theorem isolation_level_validation:
  "(sint level < 0 \<or> 2 < sint level \<longrightarrow>
      fst (psyco_conn_set_isolation_level env self (Some level)) = []
      \<and> isl (fst (snd (psyco_conn_set_isolation_level env self (Some level)))))
   \<and> (closed self = 0 \<and> async self = 0 \<longrightarrow>
        (if sint level = 0 \<or> sint level = 1 \<or> sint level = 2
         then psyco_conn_set_isolation_level env self (Some level) =
                (case external env (conn_switch_isolation_level (sint level)) self of
                   (rc, self') \<Rightarrow>
                     if rc < 0 then
                       ([conn_switch_isolation_level (sint level), PQerrorMessage],
                        Inl (PyErr_SetString OperationalError (PQerrorMessage_text env)),
                        self')
                     else ([conn_switch_isolation_level (sint level)], Inr (), self'))
         else psyco_conn_set_isolation_level env self (Some level) =
                ([], Inl (PyErr_SetString PyExc_ValueError
                            ''isolation level out of bounds (0,3)''), self))
        \<and> psyco_conn_set_isolation_level env self None = ([], Inl PyArg_error, self))"
proof -
  have range: "(sint level = 0 \<or> sint level = 1 \<or> sint level = 2)
      \<longleftrightarrow> \<not> (sint level < 0 \<or> sint level > 2)"
    by arith
  show ?thesis
    unfolding range
    by (auto simp: psyco_conn_set_isolation_level_def EXC_IF_CONN_CLOSED_def
        EXC_IF_CONN_ASYNC_def split: prod.splits)
qed

theorem isolation_level_validation_witness:
  "closed (async_connection\<lparr>async := 0\<rparr>) = 0 \<and> async (async_connection\<lparr>async := 0\<rparr>) = 0
   \<and> psyco_conn_set_isolation_level good_env (async_connection\<lparr>async := 0\<rparr>) (Some 3) =
       ([], Inl (PyErr_SetString PyExc_ValueError ''isolation level out of bounds (0,3)''),
        async_connection\<lparr>async := 0\<rparr>)
   \<and> psyco_conn_set_isolation_level good_env (async_connection\<lparr>async := 0\<rparr>) (Some (- 1)) =
       ([], Inl (PyErr_SetString PyExc_ValueError ''isolation level out of bounds (0,3)''),
        async_connection\<lparr>async := 0\<rparr>)
   \<and> psyco_conn_set_isolation_level good_env (async_connection\<lparr>async := 0\<rparr>) (Some 2) =
       ([conn_switch_isolation_level 2], Inr (), async_connection\<lparr>async := 0\<rparr>)
   \<and> psyco_conn_set_isolation_level good_env (async_connection\<lparr>async := 0\<rparr>) (Some 0) =
       ([conn_switch_isolation_level 0], Inr (), async_connection\<lparr>async := 0\<rparr>)"
proof -
  have h: "closed (async_connection\<lparr>async := 0\<rparr>) = 0 \<and> async (async_connection\<lparr>async := 0\<rparr>) = 0"
    by (simp add: async_connection_def connection_fields_def)
  have e: "external good_env ev c = (0, c)" for ev c
    by (simp add: good_env_def)
  from h e isolation_level_validation [of 3 good_env "async_connection\<lparr>async := 0\<rparr>"]
    isolation_level_validation [of "- 1" good_env "async_connection\<lparr>async := 0\<rparr>"]
    isolation_level_validation [of 2 good_env "async_connection\<lparr>async := 0\<rparr>"]
    isolation_level_validation [of 0 good_env "async_connection\<lparr>async := 0\<rparr>"]
  show ?thesis by simp
qed

subsection \<open>Synchronous-only operations on an asynchronous connection\<close>

text \<open>
  Claim C6 as stated does not hold for the cursor request: on an open asynchronous
  connection that is still in the setup state, asking for a named cursor fails with the
  \<open>OperationalError\<close> of line 72, which the status test raises before the test for a
  name is reached, and that is not an \<open>AsyncModeConflict\<close>.
\<close>

theorem named_cursor_during_handshake:
  "closed async_connection = 0 \<and> async async_connection = 1
   \<and> psyco_conn_cursor good_env async_connection (Some (Some ''c'', None)) =
       ([], Inl (PyErr_SetString OperationalError ''asynchronous connection attempt underway''),
        async_connection)
   \<and> \<not> is_AsyncModeConflict
         (PyErr_SetString OperationalError ''asynchronous connection attempt underway'')"
  by (simp add: psyco_conn_cursor_def EXC_IF_CONN_CLOSED_def is_AsyncModeConflict_def
      async_connection_def connection_fields_def)

text \<open>
  Claim C6, amended. On an open connection in asynchronous mode (\<open>async\<close> is not 0),
  commit, rollback, isolation-level change, reset and large-object open each fail with
  \<open>AsyncModeConflict\<close>, call nothing and leave the connection unchanged. On an open
  connection whose \<open>async\<close> flag is 1 and whose status is ready or in transaction, a
  cursor request that supplies a name fails with \<open>AsyncModeConflict\<close> in the same way.
  On an open connection whose status is neither ready nor in transaction, every cursor
  request, with or without a name, fails with the \<open>OperationalError\<close> of line 72, calls
  nothing and leaves the connection unchanged.
\<close>

theorem async_mode_conflict:
  assumes "closed self = 0"
  shows "(async self \<noteq> 0 \<longrightarrow>
        psyco_conn_commit env self a = ([], Inl (AsyncModeConflict ''commit''), self)
      \<and> psyco_conn_rollback env self a = ([], Inl (AsyncModeConflict ''rollback''), self)
      \<and> psyco_conn_set_isolation_level env self l =
          ([], Inl (AsyncModeConflict ''set_isolation_level''), self)
      \<and> psyco_conn_reset env self = ([], Inl (AsyncModeConflict ''reset''), self)
      \<and> psyco_conn_lobject env self (Some largs) =
          ([], Inl (AsyncModeConflict ''lobject''), self)
      \<and> is_AsyncModeConflict (AsyncModeConflict cmd))
    \<and> (async self = 1 \<and> (status self = CONN_STATUS_READY \<or> status self = CONN_STATUS_BEGIN)
        \<longrightarrow>
        psyco_conn_cursor env self (Some (Some name, factory)) =
          ([], Inl (PyErr_SetString ProgrammingError
                      ''asynchronous connections cannot produce named cursors''), self)
        \<and> is_AsyncModeConflict (PyErr_SetString ProgrammingError
                      ''asynchronous connections cannot produce named cursors''))
    \<and> (status self \<noteq> CONN_STATUS_READY \<and> status self \<noteq> CONN_STATUS_BEGIN \<longrightarrow>
        psyco_conn_cursor env self (Some (any_name, factory)) =
          ([], Inl (PyErr_SetString OperationalError
                      ''asynchronous connection attempt underway''), self))"
  using assms
  by (auto simp: psyco_conn_commit_def psyco_conn_rollback_def psyco_conn_set_isolation_level_def
      psyco_conn_reset_def psyco_conn_lobject_def psyco_conn_cursor_def
      EXC_IF_CONN_CLOSED_def EXC_IF_CONN_ASYNC_def is_AsyncModeConflict_def split: prod.splits)

theorem async_mode_conflict_witness:
  "closed (async_connection\<lparr>status := CONN_STATUS_READY\<rparr>) = 0
   \<and> async (async_connection\<lparr>status := CONN_STATUS_READY\<rparr>) = 1
   \<and> psyco_conn_commit good_env (async_connection\<lparr>status := CONN_STATUS_READY\<rparr>) (Some ()) =
        ([], Inl (AsyncModeConflict ''commit''), async_connection\<lparr>status := CONN_STATUS_READY\<rparr>)
   \<and> psyco_conn_commit good_env (async_connection\<lparr>async := 2\<rparr>) (Some ()) =
        ([], Inl (AsyncModeConflict ''commit''), async_connection\<lparr>async := 2\<rparr>)
   \<and> psyco_conn_cursor good_env (async_connection\<lparr>status := CONN_STATUS_READY\<rparr>)
        (Some (Some ''c'', None)) =
        ([], Inl (PyErr_SetString ProgrammingError
                    ''asynchronous connections cannot produce named cursors''),
         async_connection\<lparr>status := CONN_STATUS_READY\<rparr>)
   \<and> psyco_conn_cursor good_env (async_connection\<lparr>async := 2\<rparr>) (Some (None, None)) =
        ([], Inl (PyErr_SetString OperationalError
                    ''asynchronous connection attempt underway''),
         async_connection\<lparr>async := 2\<rparr>)"
proof -
  have h: "closed (async_connection\<lparr>status := CONN_STATUS_READY\<rparr>) = 0"
    and h2: "closed (async_connection\<lparr>async := 2\<rparr>) = 0"
    and f: "async (async_connection\<lparr>status := CONN_STATUS_READY\<rparr>) = 1"
      "status (async_connection\<lparr>status := CONN_STATUS_READY\<rparr>) = CONN_STATUS_READY"
      "async (async_connection\<lparr>async := 2\<rparr>) = 2"
      "status (async_connection\<lparr>async := 2\<rparr>) = CONN_STATUS_SETUP"
    by (simp_all add: async_connection_def connection_fields_def)
  from h f async_mode_conflict [OF h, of good_env "Some ()" None "(0, None, 0, None, None)"
      "''commit''" "''c''" None None]
    async_mode_conflict [OF h2, of good_env "Some ()" None "(0, None, 0, None, None)"
      "''commit''" "''c''" None None]
  show ?thesis by simp
qed

text \<open>
  What the amended claim leaves open: the test of line 77 is \<open>async == 1\<close>, so on a ready
  connection whose flag is another non-zero value the request for a named cursor goes
  on to the factory.
\<close>

lemma named_cursor_other_flag:
  "psyco_conn_cursor good_env (async_connection\<lparr>async := 2, status := CONN_STATUS_READY\<rparr>)
     (Some (Some ''c'', None)) =
   ([PyObject_CallFunction None (Some ''c'')],
    Inr \<lparr>ob_number = 1, is_cursorType = True, is_lobjectType = True\<rparr>,
    async_connection\<lparr>async := 2, status := CONN_STATUS_READY\<rparr>)"
  by (simp add: psyco_conn_cursor_def EXC_IF_CONN_CLOSED_def good_env_def
      async_connection_def connection_fields_def)

subsection \<open>The stored connection string\<close>

text \<open>
  What the loop does from a start inside the buffer: the characters up to the next space
  become \<open>x\<close>, the rest of the string stays. And whatever the string, the connection
  attempt is the one call that sees it, before the overwriting.
\<close>

lemma obfuscate_from_eq:
  "pos \<le> length s \<Longrightarrow>
   obfuscate_from s pos =
     take pos s @ map (\<lambda>c. CHR ''x'') (takeWhile (\<lambda>c. c \<noteq> CHR '' '') (drop pos s))
       @ dropWhile (\<lambda>c. c \<noteq> CHR '' '') (drop pos s)"
proof (induction s pos rule: obfuscate_from.induct)
  case (1 s pos)
  show ?case
  proof (cases "pos < length s \<and> s ! pos \<noteq> CHR '' ''")
    case True
    then have d: "drop pos s = s ! pos # drop (Suc pos) s"
      by (simp add: Cons_nth_drop_Suc)
    have t: "take (Suc pos) (s[pos := CHR ''x'']) = take pos s @ [CHR ''x'']"
      using True by (simp add: take_Suc_conv_app_nth)
    have "obfuscate_from s pos = obfuscate_from (s[pos := CHR ''x'']) (Suc pos)"
      by (subst obfuscate_from.simps) (rule if_P [OF True])
    also have "\<dots> = take (Suc pos) (s[pos := CHR ''x''])
        @ map (\<lambda>c. CHR ''x'')
            (takeWhile (\<lambda>c. c \<noteq> CHR '' '') (drop (Suc pos) (s[pos := CHR ''x''])))
        @ dropWhile (\<lambda>c. c \<noteq> CHR '' '') (drop (Suc pos) (s[pos := CHR ''x'']))"
      using True by (intro "1.IH") simp_all
    finally show ?thesis
      using True d t by simp
  next
    case False
    have "obfuscate_from s pos = s"
      by (subst obfuscate_from.simps) (rule if_not_P [OF False])
    moreover have "takeWhile (\<lambda>c. c \<noteq> CHR '' '') (drop pos s) = []"
    proof (cases "drop pos s")
      case Nil
      then show ?thesis by simp
    next
      case (Cons a rest)
      then have "s ! pos = a"
        by (rule nth_via_drop)
      moreover have "pos < length s"
      proof (rule ccontr)
        assume "\<not> pos < length s"
        then have "drop pos s = []" by simp
        with Cons show False by simp
      qed
      ultimately have "s ! pos = a" "pos < length s" by simp_all
      with False Cons show ?thesis by simp
    qed
    ultimately show ?thesis
      using takeWhile_dropWhile_id [of "\<lambda>c. c \<noteq> CHR '' ''" "drop pos s"] by simp
  qed
qed

lemma setup_connects_once:
  "connection_setup env self dsn0 async0 = Some (evs, res, c) \<Longrightarrow>
   evs = [pthread_mutex_init, conn_connect dsn0 async0]"
  by (auto simp: connection_setup_def connection_fields_def Let_def
      split: prod.splits option.splits)

text \<open>
  Claim C3 fails on the code. With spaces around the equals sign, which libpq's
  connection strings allow, the ninth character after the start of \<open>password\<close> is the
  \<open>=\<close>, the loop overwrites that one character and stops at the space: the stored string
  still holds the password. The connection attempt itself is made once, with the string
  as given.
\<close>

theorem setup_password_in_clear:
  "connection_setup good_env blank_connection ''user=admin password = secret'' 0 =
     Some ([pthread_mutex_init, conn_connect ''user=admin password = secret'' 0], 0,
           connection_fields blank_connection ''user=admin password x secret'' 0)
   \<and> strstr ''user=admin password x secret'' ''secret'' = Some 22"
  by (simp add: connection_setup_def connection_fields_def good_env_def obfuscate_password_def
      obfuscate_from.simps)

text \<open>
  Three more runs of the same code: \<open>strstr\<close> finds the first occurrence of the text
  \<open>password\<close>, wherever it is, so a database called \<open>passwords\<close> shields the real
  password; a string that ends less than nine characters after that occurrence sends
  the loop outside the buffer; and the plain form \<open>password=secret\<close> is masked as
  intended.
\<close>

lemma setup_first_occurrence:
  "map_option (\<lambda>(evs, res, c). dsn c)
     (connection_setup good_env blank_connection ''dbname=passwords password=secret'' 0) =
   Some ''dbname=passwords password=secret''"
  by (simp add: connection_setup_def connection_fields_def good_env_def obfuscate_password_def
      obfuscate_from.simps)

lemma setup_overrun:
  "connection_setup good_env blank_connection ''dbname=password'' 0 = None"
  by (simp add: connection_setup_def connection_fields_def good_env_def obfuscate_password_def
      obfuscate_from.simps)

lemma setup_ok:
  "map_option (\<lambda>(evs, res, c). dsn c)
     (connection_setup good_env blank_connection ''dbname=t password=secret user=u'' 0) =
   Some ''dbname=t password=xxxxxx user=u''"
  by (simp add: connection_setup_def connection_fields_def good_env_def obfuscate_password_def
      obfuscate_from.simps)

end
